theory Spec2Isabelle
  imports Complex_Main
begin

section \<open>The spaceship navigation state (space\_ship.py)\<close>

text \<open>
  The class \<^verbatim>\<open>SpaceshipNavigation\<close> is a record of its attributes, every method is a
  function that takes the state and returns the method's result together with the state
  after the call. The methods signal failure by returning \<^verbatim>\<open>False\<close>; none of them
  raises on numeric arguments.

  Numbers: the attributes are Python floats. In this first model they are \<^typ>\<open>real\<close>, the
  type the specification gives them, so arithmetic is exact: rounding, overflow to
  infinity and NaN are not part of it. \<^verbatim>\<open>math.sqrt\<close> is \<^const>\<open>sqrt\<close>, \<^verbatim>\<open>float(v)\<close> is the
  identity. It carries the properties that hang on the guards and assignments of the
  methods and not on the arithmetic. The fuel and speed bounds do hang on the arithmetic:
  for them the methods involved are modelled again further down, on floats with
  infinities and NaN.
  The attributes \<^verbatim>\<open>self.x\<close>, \<^verbatim>\<open>self.y\<close>, \<^verbatim>\<open>self.z\<close> are the fields \<open>ship_x\<close>, \<open>ship_y\<close>,
  \<open>ship_z\<close>. The waypoint index is only ever set to 0 or incremented, it is a \<^typ>\<open>nat\<close>.
\<close>

datatype NavigationMode = MANUAL | AUTOPILOT | EMERGENCY

fun mode_value :: "NavigationMode \<Rightarrow> string" where
  "mode_value MANUAL = ''manual''"
| "mode_value AUTOPILOT = ''autopilot''"
| "mode_value EMERGENCY = ''emergency''"

type_synonym point = "real \<times> real \<times> real"

record SpaceshipNavigation =
  ship_x :: real
  ship_y :: real
  ship_z :: real
  velocity_x :: real
  velocity_y :: real
  velocity_z :: real
  fuel_level :: real
  max_fuel :: real
  fuel_consumption_rate :: real
  max_speed :: real
  navigation_mode :: NavigationMode
  is_engine_active :: bool
  navigation_locked :: bool
  waypoints :: "point list"
  current_waypoint_index :: nat
  position_history :: "point list"
  max_history_size :: nat

text \<open>\<^verbatim>\<open>__init__\<close>: the constructor, with the caller's initial position.\<close>

definition init :: "real \<Rightarrow> real \<Rightarrow> real \<Rightarrow> SpaceshipNavigation" where
  "init initial_x initial_y initial_z =
     \<lparr> ship_x = initial_x, ship_y = initial_y, ship_z = initial_z,
       velocity_x = 0, velocity_y = 0, velocity_z = 0,
       fuel_level = 1000, max_fuel = 1000, fuel_consumption_rate = 1, max_speed = 100,
       navigation_mode = MANUAL, is_engine_active = False, navigation_locked = False,
       waypoints = [], current_waypoint_index = 0,
       position_history = [(initial_x, initial_y, initial_z)], max_history_size = 100 \<rparr>"

definition get_position :: "SpaceshipNavigation \<Rightarrow> point" where
  "get_position s = (ship_x s, ship_y s, ship_z s)"

definition get_velocity :: "SpaceshipNavigation \<Rightarrow> point" where
  "get_velocity s = (velocity_x s, velocity_y s, velocity_z s)"

text \<open>\<^verbatim>\<open>_add_to_history\<close>: append the position, drop the oldest entry past the size limit.\<close>

definition add_to_history :: "SpaceshipNavigation \<Rightarrow> SpaceshipNavigation" where
  "add_to_history s =
     (let h = position_history s @ [(ship_x s, ship_y s, ship_z s)]
      in s\<lparr>position_history := (if length h > max_history_size s then tl h else h)\<rparr>)"

definition set_position ::
  "SpaceshipNavigation \<Rightarrow> real \<Rightarrow> real \<Rightarrow> real \<Rightarrow> bool \<times> SpaceshipNavigation" where
  "set_position s x y z =
     (if navigation_locked s then (False, s)
      else (True, add_to_history (s\<lparr>ship_x := x, ship_y := y, ship_z := z\<rparr>)))"

definition move ::
  "SpaceshipNavigation \<Rightarrow> real \<Rightarrow> real \<Rightarrow> real \<Rightarrow> bool \<times> SpaceshipNavigation" where
  "move s dx dy dz =
     (if navigation_locked s then (False, s)
      else
        let distance = sqrt (dx * dx + dy * dy + dz * dz) in
        if distance = 0 then (True, s)
        else
          let fuel_needed = distance * fuel_consumption_rate s in
          if fuel_needed > fuel_level s then (False, s)
          else (True, add_to_history
                  (s\<lparr>ship_x := ship_x s + dx, ship_y := ship_y s + dy, ship_z := ship_z s + dz,
                     fuel_level := fuel_level s - fuel_needed\<rparr>)))"

definition set_velocity ::
  "SpaceshipNavigation \<Rightarrow> real \<Rightarrow> real \<Rightarrow> real \<Rightarrow> bool \<times> SpaceshipNavigation" where
  "set_velocity s vx vy vz =
     (if navigation_locked s then (False, s)
      else if \<bar>vx\<bar> > max_speed s \<or> \<bar>vy\<bar> > max_speed s \<or> \<bar>vz\<bar> > max_speed s then (False, s)
      else (True, s\<lparr>velocity_x := vx, velocity_y := vy, velocity_z := vz\<rparr>))"

definition accelerate ::
  "SpaceshipNavigation \<Rightarrow> real \<Rightarrow> real \<Rightarrow> real \<Rightarrow> real \<Rightarrow> bool \<times> SpaceshipNavigation" where
  "accelerate s ax ay az time_delta =
     (if navigation_locked s \<or> time_delta \<le> 0 then (False, s)
      else
        let new_vx = velocity_x s + ax * time_delta;
            new_vy = velocity_y s + ay * time_delta;
            new_vz = velocity_z s + az * time_delta in
        if \<bar>new_vx\<bar> > max_speed s \<or> \<bar>new_vy\<bar> > max_speed s \<or> \<bar>new_vz\<bar> > max_speed s
        then (False, s)
        else
          let acceleration_magnitude = sqrt (ax * ax + ay * ay + az * az);
              fuel_needed = acceleration_magnitude * time_delta * 2 in
          if fuel_needed > fuel_level s then (False, s)
          else (True, s\<lparr>velocity_x := new_vx, velocity_y := new_vy, velocity_z := new_vz,
                         fuel_level := fuel_level s - fuel_needed\<rparr>))"

definition navigate_time_step ::
  "SpaceshipNavigation \<Rightarrow> real \<Rightarrow> bool \<times> SpaceshipNavigation" where
  "navigate_time_step s time_delta =
     (if navigation_locked s \<or> time_delta \<le> 0 then (False, s)
      else
        let dx = velocity_x s * time_delta;
            dy = velocity_y s * time_delta;
            dz = velocity_z s * time_delta
        in move s dx dy dz)"

definition calculate_distance_to :: "SpaceshipNavigation \<Rightarrow> real \<Rightarrow> real \<Rightarrow> real \<Rightarrow> real" where
  "calculate_distance_to s target_x target_y target_z =
     (let dx = target_x - ship_x s; dy = target_y - ship_y s; dz = target_z - ship_z s
      in sqrt (dx * dx + dy * dy + dz * dz))"

text \<open>
  \<^verbatim>\<open>navigate_to_target\<close>: the optional \<^verbatim>\<open>max_speed\<close> argument is a \<^typ>\<open>real option\<close>,
  \<^const>\<open>None\<close> for the default.
\<close>

definition navigate_to_target ::
  "SpaceshipNavigation \<Rightarrow> real \<Rightarrow> real \<Rightarrow> real \<Rightarrow> real option \<Rightarrow> bool \<times> SpaceshipNavigation" where
  "navigate_to_target s target_x target_y target_z req_speed =
     (if navigation_locked s then (False, s)
      else
        let distance = calculate_distance_to s target_x target_y target_z in
        if distance = 0 then set_velocity s 0 0 0
        else
          let speed = (case req_speed of Some v \<Rightarrow> v | None \<Rightarrow> max_speed s);
              speed = min speed (max_speed s);
              dx = target_x - ship_x s;
              dy = target_y - ship_y s;
              dz = target_z - ship_z s;
              vx = (dx / distance) * speed;
              vy = (dy / distance) * speed;
              vz = (dz / distance) * speed
          in set_velocity s vx vy vz)"

definition add_waypoint ::
  "SpaceshipNavigation \<Rightarrow> real \<Rightarrow> real \<Rightarrow> real \<Rightarrow> bool \<times> SpaceshipNavigation" where
  "add_waypoint s x y z =
     (if navigation_locked s then (False, s)
      else (True, s\<lparr>waypoints := waypoints s @ [(x, y, z)]\<rparr>))"

definition clear_waypoints :: "SpaceshipNavigation \<Rightarrow> bool \<times> SpaceshipNavigation" where
  "clear_waypoints s =
     (if navigation_locked s then (False, s)
      else (True, s\<lparr>waypoints := [], current_waypoint_index := 0\<rparr>))"

definition get_next_waypoint :: "SpaceshipNavigation \<Rightarrow> point option" where
  "get_next_waypoint s =
     (if current_waypoint_index s \<ge> length (waypoints s) then None
      else Some (waypoints s ! current_waypoint_index s))"

definition advance_to_next_waypoint :: "SpaceshipNavigation \<Rightarrow> bool \<times> SpaceshipNavigation" where
  "advance_to_next_waypoint s =
     (if navigation_locked s then (False, s)
      else if current_waypoint_index s \<ge> length (waypoints s) then (False, s)
      else (True, s\<lparr>current_waypoint_index := current_waypoint_index s + 1\<rparr>))"

text \<open>\<^verbatim>\<open>navigate_waypoint_route\<close>: the threshold (5.0 by default) is passed by the caller.\<close>

definition navigate_waypoint_route ::
  "SpaceshipNavigation \<Rightarrow> real \<Rightarrow> bool \<times> SpaceshipNavigation" where
  "navigate_waypoint_route s waypoint_threshold =
     (case get_next_waypoint s of
        None \<Rightarrow> (False, s)
      | Some (target_x, target_y, target_z) \<Rightarrow>
          let distance = calculate_distance_to s target_x target_y target_z in
          if distance \<le> waypoint_threshold then advance_to_next_waypoint s
          else navigate_to_target s target_x target_y target_z None)"

text \<open>\<^verbatim>\<open>refuel\<close> returns the amount of fuel added.\<close>

definition refuel :: "SpaceshipNavigation \<Rightarrow> real \<Rightarrow> real \<times> SpaceshipNavigation" where
  "refuel s fuel_amount =
     (if fuel_amount \<le> 0 then (0, s)
      else
        let available_capacity = max_fuel s - fuel_level s;
            actual_fuel_added = min fuel_amount available_capacity
        in (actual_fuel_added, s\<lparr>fuel_level := fuel_level s + actual_fuel_added\<rparr>))"

definition get_fuel_percentage :: "SpaceshipNavigation \<Rightarrow> real" where
  "get_fuel_percentage s = (fuel_level s / max_fuel s) * 100"

definition estimate_fuel_for_distance :: "SpaceshipNavigation \<Rightarrow> real \<Rightarrow> real" where
  "estimate_fuel_for_distance s distance = distance * fuel_consumption_rate s"

definition can_reach_target :: "SpaceshipNavigation \<Rightarrow> real \<Rightarrow> real \<Rightarrow> real \<Rightarrow> bool" where
  "can_reach_target s target_x target_y target_z =
     (let distance = calculate_distance_to s target_x target_y target_z;
          fuel_needed = estimate_fuel_for_distance s distance
      in fuel_needed \<le> fuel_level s)"

definition set_navigation_mode ::
  "SpaceshipNavigation \<Rightarrow> NavigationMode \<Rightarrow> bool \<times> SpaceshipNavigation" where
  "set_navigation_mode s mode =
     (if navigation_locked s \<and> mode \<noteq> EMERGENCY then (False, s)
      else (True, s\<lparr>navigation_mode := mode\<rparr>))"

definition lock_navigation ::
  "SpaceshipNavigation \<Rightarrow> bool \<Rightarrow> bool \<times> SpaceshipNavigation" where
  "lock_navigation s locked =
     (if locked \<and> navigation_mode s \<noteq> MANUAL then (False, s)
      else (True, s\<lparr>navigation_locked := locked\<rparr>))"

definition emergency_stop :: "SpaceshipNavigation \<Rightarrow> bool \<times> SpaceshipNavigation" where
  "emergency_stop s =
     (True, s\<lparr>velocity_x := 0, velocity_y := 0, velocity_z := 0,
               navigation_mode := EMERGENCY, navigation_locked := False\<rparr>)"

text \<open>\<^verbatim>\<open>get_navigation_status\<close>: the dictionary it returns, one field per key.\<close>

record navigation_status =
  st_position :: point
  st_velocity :: point
  st_fuel_level :: real
  st_fuel_percentage :: real
  st_navigation_mode :: string
  st_navigation_locked :: bool
  st_is_engine_active :: bool
  st_waypoints_remaining :: int
  st_total_distance_traveled :: nat

definition get_navigation_status :: "SpaceshipNavigation \<Rightarrow> navigation_status" where
  "get_navigation_status s =
     \<lparr> st_position = get_position s,
       st_velocity = get_velocity s,
       st_fuel_level = fuel_level s,
       st_fuel_percentage = get_fuel_percentage s,
       st_navigation_mode = mode_value (navigation_mode s),
       st_navigation_locked = navigation_locked s,
       st_is_engine_active = is_engine_active s,
       st_waypoints_remaining = int (length (waypoints s)) - int (current_waypoint_index s),
       st_total_distance_traveled = length (position_history s) \<rparr>"

subsection \<open>Sequences of calls\<close>

text \<open>
  One constructor per public method that can change the state. The pure queries
  (\<^verbatim>\<open>get_position\<close>, \<^verbatim>\<open>get_velocity\<close>, \<^verbatim>\<open>calculate_distance_to\<close>, \<^verbatim>\<open>calculate_heading_to\<close>,
  \<^verbatim>\<open>get_next_waypoint\<close>, \<^verbatim>\<open>get_fuel_percentage\<close>, \<^verbatim>\<open>estimate_fuel_for_distance\<close>,
  \<^verbatim>\<open>can_reach_target\<close>, \<^verbatim>\<open>get_navigation_status\<close>) assign no attribute and are left out.
\<close>

datatype operation =
    SetPosition real real real
  | Move real real real
  | SetVelocity real real real
  | Accelerate real real real real
  | NavigateTimeStep real
  | NavigateToTarget real real real "real option"
  | AddWaypoint real real real
  | ClearWaypoints
  | AdvanceToNextWaypoint
  | NavigateWaypointRoute real
  | Refuel real
  | SetNavigationMode NavigationMode
  | LockNavigation bool
  | EmergencyStop

datatype return_value = RBool bool | RFloat real

definition as_bool :: "bool \<times> SpaceshipNavigation \<Rightarrow> return_value \<times> SpaceshipNavigation" where
  "as_bool r = (RBool (fst r), snd r)"

fun call :: "operation \<Rightarrow> SpaceshipNavigation \<Rightarrow> return_value \<times> SpaceshipNavigation" where
  "call (SetPosition x y z) s = as_bool (set_position s x y z)"
| "call (Move dx dy dz) s = as_bool (move s dx dy dz)"
| "call (SetVelocity vx vy vz) s = as_bool (set_velocity s vx vy vz)"
| "call (Accelerate ax ay az dt) s = as_bool (accelerate s ax ay az dt)"
| "call (NavigateTimeStep dt) s = as_bool (navigate_time_step s dt)"
| "call (NavigateToTarget tx ty tz sp) s = as_bool (navigate_to_target s tx ty tz sp)"
| "call (AddWaypoint x y z) s = as_bool (add_waypoint s x y z)"
| "call ClearWaypoints s = as_bool (clear_waypoints s)"
| "call AdvanceToNextWaypoint s = as_bool (advance_to_next_waypoint s)"
| "call (NavigateWaypointRoute th) s = as_bool (navigate_waypoint_route s th)"
| "call (Refuel a) s = (RFloat (fst (refuel s a)), snd (refuel s a))"
| "call (SetNavigationMode m) s = as_bool (set_navigation_mode s m)"
| "call (LockNavigation l) s = as_bool (lock_navigation s l)"
| "call EmergencyStop s = as_bool (emergency_stop s)"

text \<open>The state after a sequence of calls, the first element of the list first.\<close>

definition run :: "operation list \<Rightarrow> SpaceshipNavigation \<Rightarrow> SpaceshipNavigation" where
  "run ops s = foldl (\<lambda>st op. snd (call op st)) s ops"

subsection \<open>Invariants and concrete states used below\<close>

text \<open>
  The fuel bound of the specification on the exact model, with the sign of the consumption
  rate it relies on.
\<close>

definition fuel_inv :: "SpaceshipNavigation \<Rightarrow> bool" where
  "fuel_inv s =
     (0 \<le> fuel_level s \<and> fuel_level s \<le> max_fuel s \<and> 0 \<le> fuel_consumption_rate s)"

text \<open>
  The speed bound of the specification on the exact model: every velocity axis is within
  \<open>max_speed\<close>.
\<close>

definition speed_inv :: "SpaceshipNavigation \<Rightarrow> bool" where
  "speed_inv s =
     (\<bar>velocity_x s\<bar> \<le> max_speed s \<and> \<bar>velocity_y s\<bar> \<le> max_speed s
      \<and> \<bar>velocity_z s\<bar> \<le> max_speed s)"

text \<open>The methods that assign \<^verbatim>\<open>fuel_level\<close>, directly or through \<^verbatim>\<open>move\<close>.\<close>

fun changes_fuel :: "operation \<Rightarrow> bool" where
  "changes_fuel (Move dx dy dz) = True"
| "changes_fuel (NavigateTimeStep dt) = True"
| "changes_fuel (Accelerate ax ay az dt) = True"
| "changes_fuel (Refuel a) = True"
| "changes_fuel op = False"

text \<open>
  \<^verbatim>\<open>navigate_time_step\<close> as the specification words it: fail when locked or when the
  duration is not positive, otherwise behave as \<^verbatim>\<open>move\<close> on the displacement
  \<open>velocity * dt\<close>. It is compared with the definition taken from the source.
\<close>

definition navigate_time_step_spec ::
  "SpaceshipNavigation \<Rightarrow> real \<Rightarrow> bool \<times> SpaceshipNavigation" where
  "navigate_time_step_spec s dt =
     (if navigation_locked s \<or> dt \<le> 0 then (False, s)
      else move s (velocity_x s * dt) (velocity_y s * dt) (velocity_z s * dt))"

text \<open>A fresh ship at the origin that was given the velocity (1, 2, 3) and then locked.\<close>

definition locked_moving_ship :: SpaceshipNavigation where
  "locked_moving_ship = run [SetVelocity 1 2 3, LockNavigation True] (init 0 0 0)"


text \<open>A fresh ship at the origin with one waypoint, already advanced past it.\<close>

definition route_started_ship :: SpaceshipNavigation where
  "route_started_ship = run [AddWaypoint 1 2 3, AdvanceToNextWaypoint] (init 0 0 0)"

section \<open>The methods on floats with infinities and NaN\<close>

text \<open>
  A second model of the methods that the fuel and speed bounds rest on, over a number
  type with the special values of IEEE 754 doubles. An operation whose exact result
  reaches the overflow threshold gives an infinity; \<^verbatim>\<open>inf - inf\<close>, \<^verbatim>\<open>inf / inf\<close> and
  \<^verbatim>\<open>0 * inf\<close> give NaN; NaN propagates through the arithmetic, and every comparison with
  NaN is False. Finite results are kept exact: rounding to 53 bits, and with it underflow,
  is not modelled, so the model computes what Python computes wherever each exact
  intermediate result is a double, as in the runs evaluated below. The sign of zero is
  not kept, no method looks at it.

  Where Python raises (\<^verbatim>\<open>math.sqrt\<close> of a negative number, division by zero) the
  functions return NaN. The methods do not get there: the argument of \<^verbatim>\<open>math.sqrt\<close> is a
  sum of squares (\<open>sum_of_squares_nonneg_or_nan\<close>), and the one division, in
  \<^verbatim>\<open>navigate_to_target\<close>, is by a distance that was tested against zero.
\<close>

datatype pyfloat = Finite real | PosInf | NegInf | NaN

text \<open>
  The least magnitude that rounds to an infinity: halfway between the largest double,
  \<open>2 ^ 1024 - 2 ^ 971\<close>, and \<open>2 ^ 1024\<close>. \<open>of_exact\<close> is the float for an exact result.
\<close>

definition overflow_threshold :: real where
  "overflow_threshold = 2 ^ 1024 - 2 ^ 970"

definition of_exact :: "real \<Rightarrow> pyfloat" where
  "of_exact r =
     (if r \<ge> overflow_threshold then PosInf
      else if r \<le> - overflow_threshold then NegInf
      else Finite r)"

text \<open>The arithmetic of Python's \<^verbatim>\<open>-x\<close>, \<^verbatim>\<open>+\<close>, \<^verbatim>\<open>-\<close>, \<^verbatim>\<open>*\<close>, \<^verbatim>\<open>/\<close>, \<^verbatim>\<open>math.sqrt\<close> and \<^verbatim>\<open>abs\<close>.\<close>

fun fneg :: "pyfloat \<Rightarrow> pyfloat" where
  "fneg (Finite a) = Finite (- a)"
| "fneg PosInf = NegInf"
| "fneg NegInf = PosInf"
| "fneg NaN = NaN"

fun fadd :: "pyfloat \<Rightarrow> pyfloat \<Rightarrow> pyfloat" where
  "fadd (Finite a) (Finite b) = of_exact (a + b)"
| "fadd NaN _ = NaN"
| "fadd _ NaN = NaN"
| "fadd PosInf NegInf = NaN"
| "fadd NegInf PosInf = NaN"
| "fadd PosInf _ = PosInf"
| "fadd _ PosInf = PosInf"
| "fadd NegInf _ = NegInf"
| "fadd _ NegInf = NegInf"

definition fsub :: "pyfloat \<Rightarrow> pyfloat \<Rightarrow> pyfloat" where
  "fsub a b = fadd a (fneg b)"

fun fmul :: "pyfloat \<Rightarrow> pyfloat \<Rightarrow> pyfloat" where
  "fmul (Finite a) (Finite b) = of_exact (a * b)"
| "fmul NaN _ = NaN"
| "fmul _ NaN = NaN"
| "fmul (Finite a) PosInf = (if a = 0 then NaN else if a > 0 then PosInf else NegInf)"
| "fmul (Finite a) NegInf = (if a = 0 then NaN else if a > 0 then NegInf else PosInf)"
| "fmul PosInf (Finite b) = (if b = 0 then NaN else if b > 0 then PosInf else NegInf)"
| "fmul NegInf (Finite b) = (if b = 0 then NaN else if b > 0 then NegInf else PosInf)"
| "fmul PosInf PosInf = PosInf"
| "fmul PosInf NegInf = NegInf"
| "fmul NegInf PosInf = NegInf"
| "fmul NegInf NegInf = PosInf"

fun fdiv :: "pyfloat \<Rightarrow> pyfloat \<Rightarrow> pyfloat" where
  "fdiv (Finite a) (Finite b) = (if b = 0 then NaN else of_exact (a / b))"
| "fdiv NaN _ = NaN"
| "fdiv _ NaN = NaN"
| "fdiv (Finite a) PosInf = Finite 0"
| "fdiv (Finite a) NegInf = Finite 0"
| "fdiv PosInf (Finite b) = (if b = 0 then NaN else if b > 0 then PosInf else NegInf)"
| "fdiv NegInf (Finite b) = (if b = 0 then NaN else if b > 0 then NegInf else PosInf)"
| "fdiv PosInf PosInf = NaN"
| "fdiv PosInf NegInf = NaN"
| "fdiv NegInf PosInf = NaN"
| "fdiv NegInf NegInf = NaN"

fun fsqrt :: "pyfloat \<Rightarrow> pyfloat" where
  "fsqrt (Finite a) = (if a < 0 then NaN else Finite (sqrt a))"
| "fsqrt PosInf = PosInf"
| "fsqrt NegInf = NaN"
| "fsqrt NaN = NaN"

fun fabs :: "pyfloat \<Rightarrow> pyfloat" where
  "fabs (Finite a) = Finite \<bar>a\<bar>"
| "fabs PosInf = PosInf"
| "fabs NegInf = PosInf"
| "fabs NaN = NaN"

text \<open>
  The comparisons \<^verbatim>\<open><\<close>, \<^verbatim>\<open>==\<close>, \<^verbatim>\<open>>\<close>, \<^verbatim>\<open><=\<close>, each False when an operand is NaN, and
  \<^verbatim>\<open>min(a, b)\<close>, which keeps \<open>a\<close> unless \<open>b < a\<close>.
\<close>

fun flt :: "pyfloat \<Rightarrow> pyfloat \<Rightarrow> bool" where
  "flt (Finite a) (Finite b) = (a < b)"
| "flt NaN _ = False"
| "flt _ NaN = False"
| "flt _ NegInf = False"
| "flt PosInf _ = False"
| "flt NegInf _ = True"
| "flt _ PosInf = True"

fun feq :: "pyfloat \<Rightarrow> pyfloat \<Rightarrow> bool" where
  "feq (Finite a) (Finite b) = (a = b)"
| "feq PosInf PosInf = True"
| "feq NegInf NegInf = True"
| "feq _ _ = False"

definition fgt :: "pyfloat \<Rightarrow> pyfloat \<Rightarrow> bool" where
  "fgt a b = flt b a"

definition fle :: "pyfloat \<Rightarrow> pyfloat \<Rightarrow> bool" where
  "fle a b = (flt a b \<or> feq a b)"

definition fmin :: "pyfloat \<Rightarrow> pyfloat \<Rightarrow> pyfloat" where
  "fmin a b = (if flt b a then b else a)"

text \<open>What a sum of squares can be: a finite number that is not negative, infinity or NaN.\<close>

fun nonneg_or_nan :: "pyfloat \<Rightarrow> bool" where
  "nonneg_or_nan (Finite a) = (0 \<le> a)"
| "nonneg_or_nan PosInf = True"
| "nonneg_or_nan NegInf = False"
| "nonneg_or_nan NaN = True"

text \<open>The class once more, every float attribute a \<^typ>\<open>pyfloat\<close>, and the methods the runs below call.\<close>

type_synonym point_fl = "pyfloat \<times> pyfloat \<times> pyfloat"

record SpaceshipNavigation_fl =
  x_fl :: pyfloat
  y_fl :: pyfloat
  z_fl :: pyfloat
  velocity_x_fl :: pyfloat
  velocity_y_fl :: pyfloat
  velocity_z_fl :: pyfloat
  fuel_level_fl :: pyfloat
  max_fuel_fl :: pyfloat
  fuel_consumption_rate_fl :: pyfloat
  max_speed_fl :: pyfloat
  navigation_mode_fl :: NavigationMode
  is_engine_active_fl :: bool
  navigation_locked_fl :: bool
  waypoints_fl :: "point_fl list"
  current_waypoint_index_fl :: nat
  position_history_fl :: "point_fl list"
  max_history_size_fl :: nat

definition init_fl :: "pyfloat \<Rightarrow> pyfloat \<Rightarrow> pyfloat \<Rightarrow> SpaceshipNavigation_fl" where
  "init_fl initial_x initial_y initial_z =
     \<lparr> x_fl = initial_x, y_fl = initial_y, z_fl = initial_z,
       velocity_x_fl = Finite 0, velocity_y_fl = Finite 0, velocity_z_fl = Finite 0,
       fuel_level_fl = Finite 1000, max_fuel_fl = Finite 1000,
       fuel_consumption_rate_fl = Finite 1, max_speed_fl = Finite 100,
       navigation_mode_fl = MANUAL, is_engine_active_fl = False,
       navigation_locked_fl = False, waypoints_fl = [], current_waypoint_index_fl = 0,
       position_history_fl = [(initial_x, initial_y, initial_z)], max_history_size_fl = 100 \<rparr>"

definition add_to_history_fl :: "SpaceshipNavigation_fl \<Rightarrow> SpaceshipNavigation_fl" where
  "add_to_history_fl s =
     (let h = position_history_fl s @ [(x_fl s, y_fl s, z_fl s)]
      in s\<lparr>position_history_fl := (if length h > max_history_size_fl s then tl h else h)\<rparr>)"

definition set_position_fl ::
  "SpaceshipNavigation_fl \<Rightarrow> pyfloat \<Rightarrow> pyfloat \<Rightarrow> pyfloat \<Rightarrow> bool \<times> SpaceshipNavigation_fl" where
  "set_position_fl s x y z =
     (if navigation_locked_fl s then (False, s)
      else (True, add_to_history_fl (s\<lparr>x_fl := x, y_fl := y, z_fl := z\<rparr>)))"

definition move_fl ::
  "SpaceshipNavigation_fl \<Rightarrow> pyfloat \<Rightarrow> pyfloat \<Rightarrow> pyfloat \<Rightarrow> bool \<times> SpaceshipNavigation_fl" where
  "move_fl s dx dy dz =
     (if navigation_locked_fl s then (False, s)
      else
        let distance = fsqrt (fadd (fadd (fmul dx dx) (fmul dy dy)) (fmul dz dz)) in
        if feq distance (Finite 0) then (True, s)
        else
          let fuel_needed = fmul distance (fuel_consumption_rate_fl s) in
          if fgt fuel_needed (fuel_level_fl s) then (False, s)
          else (True, add_to_history_fl
                  (s\<lparr>x_fl := fadd (x_fl s) dx, y_fl := fadd (y_fl s) dy, z_fl := fadd (z_fl s) dz,
                     fuel_level_fl := fsub (fuel_level_fl s) fuel_needed\<rparr>)))"

definition set_velocity_fl ::
  "SpaceshipNavigation_fl \<Rightarrow> pyfloat \<Rightarrow> pyfloat \<Rightarrow> pyfloat \<Rightarrow> bool \<times> SpaceshipNavigation_fl" where
  "set_velocity_fl s vx vy vz =
     (if navigation_locked_fl s then (False, s)
      else if fgt (fabs vx) (max_speed_fl s) \<or> fgt (fabs vy) (max_speed_fl s)
              \<or> fgt (fabs vz) (max_speed_fl s) then (False, s)
      else (True, s\<lparr>velocity_x_fl := vx, velocity_y_fl := vy, velocity_z_fl := vz\<rparr>))"

definition navigate_time_step_fl ::
  "SpaceshipNavigation_fl \<Rightarrow> pyfloat \<Rightarrow> bool \<times> SpaceshipNavigation_fl" where
  "navigate_time_step_fl s time_delta =
     (if navigation_locked_fl s \<or> fle time_delta (Finite 0) then (False, s)
      else
        let dx = fmul (velocity_x_fl s) time_delta;
            dy = fmul (velocity_y_fl s) time_delta;
            dz = fmul (velocity_z_fl s) time_delta
        in move_fl s dx dy dz)"

definition calculate_distance_to_fl ::
  "SpaceshipNavigation_fl \<Rightarrow> pyfloat \<Rightarrow> pyfloat \<Rightarrow> pyfloat \<Rightarrow> pyfloat" where
  "calculate_distance_to_fl s target_x target_y target_z =
     (let dx = fsub target_x (x_fl s); dy = fsub target_y (y_fl s); dz = fsub target_z (z_fl s)
      in fsqrt (fadd (fadd (fmul dx dx) (fmul dy dy)) (fmul dz dz)))"

definition navigate_to_target_fl ::
  "SpaceshipNavigation_fl \<Rightarrow> pyfloat \<Rightarrow> pyfloat \<Rightarrow> pyfloat \<Rightarrow> pyfloat option
     \<Rightarrow> bool \<times> SpaceshipNavigation_fl" where
  "navigate_to_target_fl s target_x target_y target_z req_speed =
     (if navigation_locked_fl s then (False, s)
      else
        let distance = calculate_distance_to_fl s target_x target_y target_z in
        if feq distance (Finite 0) then set_velocity_fl s (Finite 0) (Finite 0) (Finite 0)
        else
          let speed = (case req_speed of Some v \<Rightarrow> v | None \<Rightarrow> max_speed_fl s);
              speed = fmin speed (max_speed_fl s);
              dx = fsub target_x (x_fl s);
              dy = fsub target_y (y_fl s);
              dz = fsub target_z (z_fl s);
              vx = fmul (fdiv dx distance) speed;
              vy = fmul (fdiv dy distance) speed;
              vz = fmul (fdiv dz distance) speed
          in set_velocity_fl s vx vy vz)"

text \<open>
  The run that leaves the bounds. \<open>huge\<close> is the double \<^verbatim>\<open>2.0**1023\<close>; a fresh ship is
  put at \<open>(huge, 0, 0)\<close>, told to navigate to \<open>(- huge, 0, 0)\<close> and then to advance by
  one time step.
\<close>

definition huge :: real where
  "huge = 2 ^ 1023"

definition far_ship :: SpaceshipNavigation_fl where
  "far_ship = snd (set_position_fl (init_fl (Finite 0) (Finite 0) (Finite 0))
                     (Finite huge) (Finite 0) (Finite 0))"

definition nan_velocity_ship :: SpaceshipNavigation_fl where
  "nan_velocity_ship =
     snd (navigate_to_target_fl far_ship (Finite (- huge)) (Finite 0) (Finite 0) None)"

definition nan_fuel_ship :: SpaceshipNavigation_fl where
  "nan_fuel_ship = snd (navigate_time_step_fl nan_velocity_ship (Finite 1))"

section \<open>Properties\<close>

lemma run_Nil: "run [] s = s"
  by (simp add: run_def)

lemma run_snoc: "run (ops @ [op]) s = snd (call op (run ops s))"
  by (simp add: run_def)

lemma run_Cons: "run (op # ops) s = run ops (snd (call op s))"
  by (simp add: run_def)

lemmas op_defs = set_position_def move_def set_velocity_def accelerate_def
  navigate_time_step_def navigate_to_target_def add_waypoint_def clear_waypoints_def
  advance_to_next_waypoint_def navigate_waypoint_route_def refuel_def
  set_navigation_mode_def lock_navigation_def emergency_stop_def add_to_history_def
  as_bool_def

subsection \<open>Entering EMERGENCY mode\<close>

lemma locked_moving_ship_eq:
  "locked_moving_ship =
     (init 0 0 0)\<lparr>velocity_x := 1, velocity_y := 2, velocity_z := 3, navigation_locked := True\<rparr>"
  by (simp add: locked_moving_ship_def run_def op_defs init_def)

text \<open>
  C1, as stated, fails for \<^verbatim>\<open>set_navigation_mode\<close>: on the locked ship moving at (1, 2, 3)
  the call with EMERGENCY succeeds and the mode becomes EMERGENCY, but the velocity is
  still (1, 2, 3) and the ship is still locked.
\<close>

theorem set_navigation_mode_emergency_keeps_velocity_and_lock:
  "fst (set_navigation_mode locked_moving_ship EMERGENCY) = True
   \<and> navigation_mode (snd (set_navigation_mode locked_moving_ship EMERGENCY)) = EMERGENCY
   \<and> get_velocity (snd (set_navigation_mode locked_moving_ship EMERGENCY)) = (1, 2, 3)
   \<and> navigation_locked (snd (set_navigation_mode locked_moving_ship EMERGENCY)) = True"
  by (simp add: locked_moving_ship_eq set_navigation_mode_def get_velocity_def init_def)

text \<open>
  C1 (amended): in every state, \<^verbatim>\<open>emergency_stop\<close> succeeds and leaves the mode EMERGENCY,
  the velocity (0, 0, 0) and the lock released, every other field as it was;
  \<^verbatim>\<open>set_navigation_mode\<close> with EMERGENCY succeeds in every state, locked or not, sets
  the mode to EMERGENCY and leaves the velocity as it was.
\<close>

theorem entering_emergency:
  "emergency_stop s =
     (True, s\<lparr>velocity_x := 0, velocity_y := 0, velocity_z := 0,
              navigation_mode := EMERGENCY, navigation_locked := False\<rparr>)
   \<and> navigation_mode (snd (emergency_stop s)) = EMERGENCY
   \<and> get_velocity (snd (emergency_stop s)) = (0, 0, 0)
   \<and> navigation_locked (snd (emergency_stop s)) = False
   \<and> fst (set_navigation_mode s EMERGENCY) = True
   \<and> navigation_mode (snd (set_navigation_mode s EMERGENCY)) = EMERGENCY
   \<and> get_velocity (snd (set_navigation_mode s EMERGENCY)) = get_velocity s"
  by (simp add: emergency_stop_def set_navigation_mode_def get_velocity_def)

subsection \<open>navigate\_to\_target and the speed limit\<close>

lemma abs_le_norm3:
  fixes a b c :: real
  shows "\<bar>a\<bar> \<le> sqrt (a * a + b * b + c * c)"
    and "\<bar>b\<bar> \<le> sqrt (a * a + b * b + c * c)"
    and "\<bar>c\<bar> \<le> sqrt (a * a + b * b + c * c)"
proof -
  have "sqrt (a * a) \<le> sqrt (a * a + b * b + c * c)"
    by (rule real_sqrt_le_mono) (simp add: add.assoc)
  then show "\<bar>a\<bar> \<le> sqrt (a * a + b * b + c * c)" by simp
  have "sqrt (b * b) \<le> sqrt (a * a + b * b + c * c)"
    by (rule real_sqrt_le_mono) (simp add: add.assoc)
  then show "\<bar>b\<bar> \<le> sqrt (a * a + b * b + c * c)" by simp
  have "sqrt (c * c) \<le> sqrt (a * a + b * b + c * c)"
    by (rule real_sqrt_le_mono) simp
  then show "\<bar>c\<bar> \<le> sqrt (a * a + b * b + c * c)" by simp
qed

lemma scaled_component_bound:
  fixes a d v m :: real
  assumes a: "\<bar>a\<bar> \<le> d" and d: "d \<noteq> 0" and v: "\<bar>v\<bar> \<le> m"
  shows "\<bar>a / d * v\<bar> \<le> m"
proof -
  from a d have pos: "0 < d" by linarith
  with a have "\<bar>a / d\<bar> \<le> 1" by simp
  then have "\<bar>a / d\<bar> * \<bar>v\<bar> \<le> 1 * \<bar>v\<bar>"
    by (rule mult_right_mono) simp
  then have "\<bar>a / d * v\<bar> \<le> \<bar>v\<bar>" by (simp only: abs_mult mult_1)
  with v show ?thesis by linarith
qed

lemma set_velocity_accepts:
  "\<not> navigation_locked s \<Longrightarrow> \<bar>vx\<bar> \<le> max_speed s \<Longrightarrow> \<bar>vy\<bar> \<le> max_speed s
   \<Longrightarrow> \<bar>vz\<bar> \<le> max_speed s \<Longrightarrow> fst (set_velocity s vx vy vz) = True"
  by (simp add: set_velocity_def)

text \<open>
  C2: \<^verbatim>\<open>navigate_to_target\<close> is to return True on every unlocked ship, whatever the
  requested speed, and the code does not: the clamp \<^verbatim>\<open>min(speed, self.max_speed)\<close>, commented
  "Don't exceed ship's max speed", bounds the speed from above only. On a fresh, unlocked
  ship at the origin, \<^verbatim>\<open>navigate_to_target(1, 0, 0, -500)\<close> builds the velocity
  (-500, 0, 0), which \<^verbatim>\<open>set_velocity\<close> rejects: the call returns False. Every step of this
  run is exact in floats as well.
\<close>

theorem navigate_to_target_negative_speed_rejected:
  "navigate_to_target (init 0 0 0) 1 0 0 (Some (- 500)) = (False, init 0 0 0)"
  by (simp add: navigate_to_target_def calculate_distance_to_def set_velocity_def init_def)

text \<open>
  In exact arithmetic this is the only way to the rejection: on an unlocked ship whose
  \<open>max_speed\<close> is not negative, a requested speed that is absent or at least
  \<open>- max_speed\<close> gives a velocity that \<^verbatim>\<open>set_velocity\<close> accepts. The lemma is about the
  exact model only; in floats a quotient \<^verbatim>\<open>dx / distance\<close> can round above 1.
\<close>

lemma navigate_to_target_accepts_exact:
  assumes unlocked: "navigation_locked s = False"
    and ms: "0 \<le> max_speed s"
    and req: "\<forall>v. req_speed = Some v \<longrightarrow> - max_speed s \<le> v"
  shows "fst (navigate_to_target s target_x target_y target_z req_speed) = True"
proof -
  define speed where
    "speed = min (case req_speed of Some v \<Rightarrow> v | None \<Rightarrow> max_speed s) (max_speed s)"
  have sp: "\<bar>speed\<bar> \<le> max_speed s"
    using ms req by (cases req_speed) (auto simp: speed_def min_def)
  let ?dx = "target_x - ship_x s" and ?dy = "target_y - ship_y s"
    and ?dz = "target_z - ship_z s"
  let ?d = "sqrt (?dx * ?dx + ?dy * ?dy + ?dz * ?dz)"
  show ?thesis
  proof (cases "?d = 0")
    case True
    then show ?thesis using unlocked ms
      by (simp add: navigate_to_target_def calculate_distance_to_def set_velocity_def)
  next
    case False
    have x: "\<bar>?dx / ?d * speed\<bar> \<le> max_speed s"
      using abs_le_norm3(1) False sp by (rule scaled_component_bound)
    have y: "\<bar>?dy / ?d * speed\<bar> \<le> max_speed s"
      using abs_le_norm3(2) False sp by (rule scaled_component_bound)
    have z: "\<bar>?dz / ?d * speed\<bar> \<le> max_speed s"
      using abs_le_norm3(3) False sp by (rule scaled_component_bound)
    have "navigate_to_target s target_x target_y target_z req_speed
          = set_velocity s (?dx / ?d * speed) (?dy / ?d * speed) (?dz / ?d * speed)"
      using unlocked False
      by (simp add: navigate_to_target_def calculate_distance_to_def Let_def speed_def)
    then show ?thesis using unlocked x y z by (simp add: set_velocity_accepts)
  qed
qed

subsection \<open>Rejected calls change nothing\<close>

text \<open>
  C3: whenever a call of a mutator returns False, the state after the call is the state
  before it, field by field. The statement covers every method of \<^typ>\<open>operation\<close>, the
  eleven mutators of the claim among them.
\<close>

theorem rejected_call_leaves_state:
  "call op s = (RBool False, s') \<Longrightarrow> s' = s"
  by (cases op)
    (auto simp: op_defs get_next_waypoint_def Let_def split: if_splits option.splits prod.splits)

theorem rejected_call_leaves_state_witness:
  "call (SetVelocity 999 999 999) (init 0 0 0) = (RBool False, init 0 0 0)"
  using rejected_call_leaves_state
    [of "SetVelocity 999 999 999" "init 0 0 0" "snd (call (SetVelocity 999 999 999) (init 0 0 0))"]
  by (simp add: set_velocity_def as_bool_def init_def)

subsection \<open>navigate\_time\_step delegates to move\<close>

text \<open>
  C7: \<^verbatim>\<open>navigate_time_step(dt)\<close> fails when the ship is locked or \<open>dt \<le> 0\<close>, and is
  otherwise \<^verbatim>\<open>move(velocity_x*dt, velocity_y*dt, velocity_z*dt)\<close>: same result, same
  state after the call.
\<close>

theorem navigate_time_step_refines_spec:
  "navigate_time_step s dt = navigate_time_step_spec s dt"
  by (simp add: navigate_time_step_def navigate_time_step_spec_def)

subsection \<open>The zero-distance move\<close>

text \<open>
  C8: on an unlocked ship, whatever its fuel level, \<^verbatim>\<open>move(0, 0, 0)\<close> returns True and
  leaves the whole state, position, fuel level and history included, unchanged.
\<close>

theorem move_zero_is_noop:
  "navigation_locked s = False \<Longrightarrow> move s 0 0 0 = (True, s)"
  by (simp add: move_def)

theorem move_zero_is_noop_witness:
  "navigation_locked ((init 0 0 0)\<lparr>fuel_level := 0\<rparr>) = False
   \<and> move ((init 0 0 0)\<lparr>fuel_level := 0\<rparr>) 0 0 0 = (True, (init 0 0 0)\<lparr>fuel_level := 0\<rparr>)"
  using move_zero_is_noop [of "(init 0 0 0)\<lparr>fuel_level := 0\<rparr>"]
  by (simp add: init_def)

subsection \<open>Refuelling ignores lock and mode\<close>





subsection \<open>Attributes no method assigns\<close>

lemma call_consts:
  "max_fuel (snd (call op s)) = max_fuel s"
  "fuel_consumption_rate (snd (call op s)) = fuel_consumption_rate s"
  "max_speed (snd (call op s)) = max_speed s"
  "is_engine_active (snd (call op s)) = is_engine_active s"
  by (cases op; simp add: op_defs get_next_waypoint_def Let_def split: if_splits option.splits prod.splits)+

subsection \<open>The fuel bound in exact arithmetic\<close>

lemma burn_fuel_inv:
  assumes "fuel_inv s" and "0 \<le> fuel_needed" and "\<not> fuel_needed > fuel_level s"
    and "fuel_level s' = fuel_level s - fuel_needed" and "max_fuel s' = max_fuel s"
    and "fuel_consumption_rate s' = fuel_consumption_rate s"
  shows "fuel_inv s'"
  using assms by (simp add: fuel_inv_def)

lemma move_result:
  "snd (move s dx dy dz) = s
   \<or> (\<not> sqrt (dx * dx + dy * dy + dz * dz) * fuel_consumption_rate s > fuel_level s
      \<and> snd (move s dx dy dz) = add_to_history
                  (s\<lparr>ship_x := ship_x s + dx, ship_y := ship_y s + dy, ship_z := ship_z s + dz,
                     fuel_level := fuel_level s
                       - sqrt (dx * dx + dy * dy + dz * dz) * fuel_consumption_rate s\<rparr>))"
  unfolding move_def Let_def by (simp del: real_sqrt_eq_zero_cancel_iff)

lemma move_fuel_inv:
  assumes inv: "fuel_inv s"
  shows "fuel_inv (snd (move s dx dy dz))"
proof -
  let ?fuel_needed = "sqrt (dx * dx + dy * dy + dz * dz) * fuel_consumption_rate s"
  have nonneg: "0 \<le> ?fuel_needed"
    using inv by (simp add: fuel_inv_def)
  from move_result [of s dx dy dz] show ?thesis
  proof
    assume "snd (move s dx dy dz) = s"
    with inv show ?thesis by simp
  next
    assume r: "\<not> ?fuel_needed > fuel_level s \<and> snd (move s dx dy dz) = add_to_history
                  (s\<lparr>ship_x := ship_x s + dx, ship_y := ship_y s + dy, ship_z := ship_z s + dz,
                     fuel_level := fuel_level s - ?fuel_needed\<rparr>)"
    show ?thesis
    proof (rule burn_fuel_inv [OF inv nonneg])
      show "\<not> ?fuel_needed > fuel_level s" using r by (rule conjunct1)
      show "fuel_level (snd (move s dx dy dz)) = fuel_level s - ?fuel_needed"
        by (simp only: conjunct2 [OF r]) (simp add: add_to_history_def Let_def)
      show "max_fuel (snd (move s dx dy dz)) = max_fuel s"
        by (simp only: conjunct2 [OF r]) (simp add: add_to_history_def Let_def)
      show "fuel_consumption_rate (snd (move s dx dy dz)) = fuel_consumption_rate s"
        by (simp only: conjunct2 [OF r]) (simp add: add_to_history_def Let_def)
    qed
  qed
qed


lemma accelerate_result:
  "snd (accelerate s ax ay az dt) = s
   \<or> (0 < dt \<and> \<not> sqrt (ax * ax + ay * ay + az * az) * dt * 2 > fuel_level s
      \<and> \<bar>velocity_x s + ax * dt\<bar> \<le> max_speed s
      \<and> \<bar>velocity_y s + ay * dt\<bar> \<le> max_speed s
      \<and> \<bar>velocity_z s + az * dt\<bar> \<le> max_speed s
      \<and> snd (accelerate s ax ay az dt) =
          s\<lparr>velocity_x := velocity_x s + ax * dt, velocity_y := velocity_y s + ay * dt,
            velocity_z := velocity_z s + az * dt,
            fuel_level := fuel_level s - sqrt (ax * ax + ay * ay + az * az) * dt * 2\<rparr>)"
  unfolding accelerate_def Let_def by (simp add: not_less not_le)

lemma accelerate_fuel_inv:
  assumes inv: "fuel_inv s"
  shows "fuel_inv (snd (accelerate s ax ay az dt))"
proof -
  let ?fuel_needed = "sqrt (ax * ax + ay * ay + az * az) * dt * 2"
  from accelerate_result [of s ax ay az dt] show ?thesis
  proof
    assume "snd (accelerate s ax ay az dt) = s"
    with inv show ?thesis by simp
  next
    assume r: "0 < dt \<and> \<not> ?fuel_needed > fuel_level s
      \<and> \<bar>velocity_x s + ax * dt\<bar> \<le> max_speed s
      \<and> \<bar>velocity_y s + ay * dt\<bar> \<le> max_speed s
      \<and> \<bar>velocity_z s + az * dt\<bar> \<le> max_speed s
      \<and> snd (accelerate s ax ay az dt) =
          s\<lparr>velocity_x := velocity_x s + ax * dt, velocity_y := velocity_y s + ay * dt,
            velocity_z := velocity_z s + az * dt, fuel_level := fuel_level s - ?fuel_needed\<rparr>"
    then have dt: "0 < dt" and enough: "\<not> ?fuel_needed > fuel_level s"
      and eq: "snd (accelerate s ax ay az dt) =
          s\<lparr>velocity_x := velocity_x s + ax * dt, velocity_y := velocity_y s + ay * dt,
            velocity_z := velocity_z s + az * dt, fuel_level := fuel_level s - ?fuel_needed\<rparr>"
      by blast+
    from dt have nonneg: "0 \<le> ?fuel_needed" by simp
    show ?thesis
      by (rule burn_fuel_inv [OF inv nonneg enough]) (simp_all only: eq, simp_all)
  qed
qed

lemma refuel_fuel_inv: "fuel_inv s \<Longrightarrow> fuel_inv (snd (refuel s a))"
  by (auto simp: refuel_def fuel_inv_def Let_def min_def)

lemma fuel_level_unchanged:
  "\<not> changes_fuel op \<Longrightarrow> fuel_level (snd (call op s)) = fuel_level s"
  by (cases op) (auto simp: op_defs get_next_waypoint_def Let_def split: if_splits option.splits prod.splits)

lemma call_fuel_inv:
  assumes inv: "fuel_inv s"
  shows "fuel_inv (snd (call op s))"
proof (cases "changes_fuel op")
  case False
  with inv show ?thesis by (simp add: fuel_inv_def call_consts fuel_level_unchanged)
next
  case True
  show ?thesis
  proof (cases op)
    case (Move dx dy dz)
    then show ?thesis using inv by (simp add: as_bool_def move_fuel_inv)
  next
    case (Accelerate ax ay az dt)
    then show ?thesis using inv by (simp add: as_bool_def accelerate_fuel_inv)
  next
    case (NavigateTimeStep dt)
    then show ?thesis using inv by (simp add: as_bool_def navigate_time_step_def move_fuel_inv)
  next
    case (Refuel a)
    then show ?thesis using inv by (simp add: refuel_fuel_inv)
  qed (use True in simp_all)
qed

lemma run_fuel_inv: "fuel_inv (run ops (init x0 y0 z0))"
proof (induction ops rule: rev_induct)
  case Nil
  show ?case by (simp add: run_Nil fuel_inv_def init_def)
next
  case (snoc op ops)
  then show ?case by (simp only: run_snoc call_fuel_inv)
qed

text \<open>
  On the exact model the guards keep the fuel bound after every sequence of calls on a
  freshly constructed ship: only \<^verbatim>\<open>move\<close>, \<^verbatim>\<open>navigate_time_step\<close>, \<^verbatim>\<open>accelerate\<close> and
  \<^verbatim>\<open>refuel\<close> assign the fuel level (\<open>fuel_level_unchanged\<close>), the first three subtract a
  non-negative amount that the guard found available, the last adds at most the free
  capacity. This is what the guards are written for; it says nothing about NaN, which
  the float model below covers.
\<close>

lemma fuel_bound_exact:
  "0 \<le> fuel_level (run ops (init x0 y0 z0))
   \<and> fuel_level (run ops (init x0 y0 z0)) \<le> max_fuel (run ops (init x0 y0 z0))"
  using run_fuel_inv [of ops x0 y0 z0] by (simp add: fuel_inv_def)

subsection \<open>The speed bound in exact arithmetic\<close>

lemma set_velocity_speed_inv: "speed_inv s \<Longrightarrow> speed_inv (snd (set_velocity s vx vy vz))"
  by (simp add: set_velocity_def speed_inv_def not_less)

lemma accelerate_speed_inv: "speed_inv s \<Longrightarrow> speed_inv (snd (accelerate s ax ay az dt))"
  unfolding accelerate_def Let_def by (simp add: speed_inv_def not_less)

lemma navigate_to_target_speed_inv:
  "speed_inv s \<Longrightarrow> speed_inv (snd (navigate_to_target s tx ty tz sp))"
  unfolding navigate_to_target_def Let_def by (simp add: set_velocity_speed_inv)

lemma advance_speed_inv: "speed_inv s \<Longrightarrow> speed_inv (snd (advance_to_next_waypoint s))"
  by (simp add: advance_to_next_waypoint_def speed_inv_def)

lemma navigate_waypoint_route_speed_inv:
  "speed_inv s \<Longrightarrow> speed_inv (snd (navigate_waypoint_route s th))"
  unfolding navigate_waypoint_route_def Let_def
  by (simp add: navigate_to_target_speed_inv advance_speed_inv split: option.splits prod.splits)

lemma emergency_stop_speed_inv: "speed_inv s \<Longrightarrow> speed_inv (snd (emergency_stop s))"
  by (auto simp: emergency_stop_def speed_inv_def)

lemma call_speed_inv:
  assumes inv: "speed_inv s"
  shows "speed_inv (snd (call op s))"
proof (cases op)
  case (SetVelocity vx vy vz)
  then show ?thesis using inv by (simp add: as_bool_def set_velocity_speed_inv)
next
  case (Accelerate ax ay az dt)
  then show ?thesis using inv by (simp add: as_bool_def accelerate_speed_inv)
next
  case (NavigateToTarget tx ty tz sp)
  then show ?thesis using inv by (simp add: as_bool_def navigate_to_target_speed_inv)
next
  case (NavigateWaypointRoute th)
  then show ?thesis using inv by (simp add: as_bool_def navigate_waypoint_route_speed_inv)
next
  case EmergencyStop
  then show ?thesis using inv by (simp add: as_bool_def emergency_stop_speed_inv)
next
  case (SetPosition x y z)
  then show ?thesis using inv
    by (simp add: as_bool_def set_position_def add_to_history_def Let_def speed_inv_def)
next
  case (Move dx dy dz)
  then show ?thesis using inv
    by (simp add: as_bool_def move_def add_to_history_def Let_def speed_inv_def
        del: real_sqrt_eq_zero_cancel_iff)
next
  case (NavigateTimeStep dt)
  then show ?thesis using inv
    by (simp add: as_bool_def navigate_time_step_def move_def add_to_history_def Let_def speed_inv_def
        del: real_sqrt_eq_zero_cancel_iff)
next
  case (AddWaypoint x y z)
  then show ?thesis using inv by (simp add: as_bool_def add_waypoint_def speed_inv_def)
next
  case ClearWaypoints
  then show ?thesis using inv by (simp add: as_bool_def clear_waypoints_def speed_inv_def)
next
  case AdvanceToNextWaypoint
  then show ?thesis using inv by (simp add: as_bool_def advance_speed_inv)
next
  case (Refuel a)
  then show ?thesis using inv by (simp add: refuel_def Let_def speed_inv_def)
next
  case (SetNavigationMode m)
  then show ?thesis using inv by (simp add: as_bool_def set_navigation_mode_def speed_inv_def)
next
  case (LockNavigation l)
  then show ?thesis using inv by (simp add: as_bool_def lock_navigation_def speed_inv_def)
qed

lemma run_speed_inv: "speed_inv (run ops (init x0 y0 z0))"
proof (induction ops rule: rev_induct)
  case Nil
  show ?case by (simp add: run_Nil speed_inv_def init_def)
next
  case (snoc op ops)
  then show ?case by (simp only: run_snoc call_speed_inv)
qed

text \<open>
  On the exact model the guards keep the speed bound after every sequence of calls on a
  freshly constructed ship: \<^verbatim>\<open>set_velocity\<close> and \<^verbatim>\<open>accelerate\<close> store only what passed
  their check, \<^verbatim>\<open>navigate_to_target\<close> stores through \<^verbatim>\<open>set_velocity\<close>, \<^verbatim>\<open>emergency_stop\<close>
  stores zero. The step from "not above \<open>max_speed\<close>" to "within \<open>max_speed\<close>" is sound
  for real numbers only; the float model below shows where it breaks.
\<close>

lemma speed_bound_exact:
  "\<bar>velocity_x (run ops (init x0 y0 z0))\<bar> \<le> max_speed (run ops (init x0 y0 z0))
   \<and> \<bar>velocity_y (run ops (init x0 y0 z0))\<bar> \<le> max_speed (run ops (init x0 y0 z0))
   \<and> \<bar>velocity_z (run ops (init x0 y0 z0))\<bar> \<le> max_speed (run ops (init x0 y0 z0))"
  using run_speed_inv [of ops x0 y0 z0] by (simp add: speed_inv_def)

subsection \<open>The waypoint index\<close>

lemma route_started_ship_eq:
  "route_started_ship = (init 0 0 0)\<lparr>waypoints := [(1, 2, 3)], current_waypoint_index := 1\<rparr>"
  by (simp add: route_started_ship_def run_def op_defs init_def)

text \<open>
  C6, as stated, fails for \<^verbatim>\<open>clear_waypoints\<close>: on the ship that advanced past its one
  waypoint the index is 1, and the call resets it to 0.
\<close>

theorem clear_waypoints_resets_index:
  "current_waypoint_index route_started_ship = 1
   \<and> fst (clear_waypoints route_started_ship) = True
   \<and> current_waypoint_index (snd (clear_waypoints route_started_ship)) = 0"
  by (simp add: route_started_ship_eq clear_waypoints_def init_def)

lemma index_monotone:
  "op \<noteq> ClearWaypoints \<Longrightarrow> current_waypoint_index s \<le> current_waypoint_index (snd (call op s))"
  by (cases op)
    (auto simp: op_defs get_next_waypoint_def Let_def split: if_splits option.splits prod.splits
       simp del: real_sqrt_eq_zero_cancel_iff)

lemma call_index_cap:
  "current_waypoint_index s \<le> length (waypoints s)
   \<Longrightarrow> current_waypoint_index (snd (call op s)) \<le> length (waypoints (snd (call op s)))"
  by (cases op)
    (auto simp: op_defs get_next_waypoint_def Let_def split: if_splits option.splits prod.splits
       simp del: real_sqrt_eq_zero_cancel_iff)

lemma run_index_cap:
  "current_waypoint_index (run ops (init x0 y0 z0)) \<le> length (waypoints (run ops (init x0 y0 z0)))"
proof (induction ops rule: rev_induct)
  case Nil
  show ?case by (simp add: run_Nil init_def)
next
  case (snoc op ops)
  then show ?case by (simp only: run_snoc call_index_cap)
qed

text \<open>
  C6 (amended): in every state reached from a fresh ship, no method other than
  \<^verbatim>\<open>clear_waypoints\<close> decreases the waypoint index, and the index is at most the number
  of waypoints; \<^verbatim>\<open>clear_waypoints\<close> resets the index to 0 when the ship is unlocked and
  leaves it as it is when the ship is locked.
\<close>

theorem waypoint_index_progress:
  assumes "s = run ops (init x0 y0 z0)"
  shows "(op \<noteq> ClearWaypoints \<longrightarrow>
            current_waypoint_index s \<le> current_waypoint_index (snd (call op s)))
         \<and> current_waypoint_index s \<le> length (waypoints s)
         \<and> current_waypoint_index (snd (clear_waypoints s))
             = (if navigation_locked s then current_waypoint_index s else 0)"
  using assms by (simp add: index_monotone run_index_cap clear_waypoints_def)

theorem waypoint_index_progress_witness:
  "AdvanceToNextWaypoint \<noteq> ClearWaypoints
   \<and> current_waypoint_index (run [AddWaypoint 1 2 3] (init 0 0 0)) = 0
   \<and> current_waypoint_index (snd (call AdvanceToNextWaypoint (run [AddWaypoint 1 2 3] (init 0 0 0)))) = 1
   \<and> current_waypoint_index (run [AddWaypoint 1 2 3] (init 0 0 0))
        \<le> current_waypoint_index (snd (call AdvanceToNextWaypoint (run [AddWaypoint 1 2 3] (init 0 0 0))))"
  using waypoint_index_progress [of "run [AddWaypoint 1 2 3] (init 0 0 0)" "[AddWaypoint 1 2 3]" 0 0 0 AdvanceToNextWaypoint]
  by (simp add: run_def op_defs init_def)

subsection \<open>The engine flag\<close>

lemma run_is_engine_active: "is_engine_active (run ops (init x0 y0 z0)) = False"
proof (induction ops rule: rev_induct)
  case Nil
  show ?case by (simp add: run_Nil init_def)
next
  case (snoc op ops)
  then show ?case by (simp only: run_snoc call_consts)
qed

text \<open>
  C9: after every sequence of calls on a freshly constructed ship, \<open>is_engine_active\<close>
  is False, and so is the field of that name in the result of \<^verbatim>\<open>get_navigation_status\<close>.
\<close>

theorem engine_never_active:
  "is_engine_active (run ops (init x0 y0 z0)) = False
   \<and> st_is_engine_active (get_navigation_status (run ops (init x0 y0 z0))) = False"
  by (simp add: run_is_engine_active get_navigation_status_def)

subsection \<open>The bounds on floats\<close>

lemma of_exact_nonneg: "0 \<le> r \<Longrightarrow> nonneg_or_nan (of_exact r)"
proof -
  assume r: "0 \<le> r"
  have "0 < overflow_threshold"
    unfolding overflow_threshold_def by simp
  with r show ?thesis by (simp add: of_exact_def)
qed

lemma square_nonneg_or_nan: "nonneg_or_nan (fmul a a)"
  by (cases a) (simp_all add: of_exact_nonneg)

lemma fadd_nonneg_or_nan:
  "nonneg_or_nan a \<Longrightarrow> nonneg_or_nan b \<Longrightarrow> nonneg_or_nan (fadd a b)"
  by (cases a; cases b) (simp_all add: of_exact_nonneg)

lemma sum_of_squares_nonneg_or_nan:
  "nonneg_or_nan (fadd (fadd (fmul a a) (fmul b b)) (fmul c c))"
  by (intro fadd_nonneg_or_nan square_nonneg_or_nan)

lemma of_exact_small: "\<bar>r\<bar> \<le> 1000 \<Longrightarrow> of_exact r = Finite r"
proof -
  assume r: "\<bar>r\<bar> \<le> 1000"
  have "(1000::real) < overflow_threshold"
    unfolding overflow_threshold_def by simp
  with r show ?thesis by (auto simp: of_exact_def)
qed

lemma fsub_overflow: "fsub (Finite (- huge)) (Finite huge) = NegInf"
  by (simp add: fsub_def of_exact_def overflow_threshold_def huge_def)

lemma far_ship_eq:
  "far_ship = (init_fl (Finite 0) (Finite 0) (Finite 0))
     \<lparr>x_fl := Finite huge,
      position_history_fl := [(Finite 0, Finite 0, Finite 0), (Finite huge, Finite 0, Finite 0)]\<rparr>"
  by (simp add: far_ship_def set_position_fl_def add_to_history_fl_def init_fl_def)

lemma far_ship_distance:
  "calculate_distance_to_fl far_ship (Finite (- huge)) (Finite 0) (Finite 0) = PosInf"
  by (simp add: calculate_distance_to_fl_def far_ship_eq init_fl_def fsub_overflow of_exact_small)
    (simp add: fsub_def of_exact_small)

lemma nan_velocity_ship_eq:
  "navigate_to_target_fl far_ship (Finite (- huge)) (Finite 0) (Finite 0) None
     = (True, far_ship\<lparr>velocity_x_fl := NaN, velocity_y_fl := Finite 0, velocity_z_fl := Finite 0\<rparr>)"
proof -
  have "x_fl far_ship = Finite huge" "y_fl far_ship = Finite 0" "z_fl far_ship = Finite 0"
    "max_speed_fl far_ship = Finite 100" "navigation_locked_fl far_ship = False"
    by (simp_all add: far_ship_eq init_fl_def)
  moreover have "fsub (Finite 0) (Finite 0) = Finite 0"
    by (simp add: fsub_def of_exact_small)
  ultimately show ?thesis
    by (simp add: navigate_to_target_fl_def far_ship_distance fsub_overflow set_velocity_fl_def
        fmin_def fgt_def of_exact_small Let_def)
qed

text \<open>
  C5: the speed bound is to hold after every call, and the code breaks it. On a fresh
  ship, \<^verbatim>\<open>set_position(2.0**1023, 0, 0)\<close> and \<^verbatim>\<open>navigate_to_target(-2.0**1023, 0, 0)\<close> both
  return True; the difference of the coordinates overflows to \<^verbatim>\<open>-inf\<close>, the distance is
  \<^verbatim>\<open>inf\<close>, \<^verbatim>\<open>-inf / inf\<close> is NaN, and \<^verbatim>\<open>set_velocity\<close> stores it, because its guard
  \<^verbatim>\<open>abs(vx) > self.max_speed\<close> is False for NaN. After the call \<^verbatim>\<open>velocity_x\<close> is NaN and
  \<^verbatim>\<open>abs(velocity_x) <= max_speed\<close> is False.
\<close>

theorem velocity_nan_after_overflow:
  "fst (set_position_fl (init_fl (Finite 0) (Finite 0) (Finite 0))
          (Finite huge) (Finite 0) (Finite 0)) = True
   \<and> fst (navigate_to_target_fl far_ship (Finite (- huge)) (Finite 0) (Finite 0) None) = True
   \<and> velocity_x_fl nan_velocity_ship = NaN
   \<and> fle (fabs (velocity_x_fl nan_velocity_ship)) (max_speed_fl nan_velocity_ship) = False"
  by (simp add: nan_velocity_ship_def nan_velocity_ship_eq set_position_fl_def init_fl_def fle_def)

lemma nan_fuel_ship_eq:
  "navigate_time_step_fl nan_velocity_ship (Finite 1)
     = (True, add_to_history_fl (nan_velocity_ship\<lparr>x_fl := NaN, fuel_level_fl := NaN\<rparr>))"
proof -
  have s: "nan_velocity_ship
             = far_ship\<lparr>velocity_x_fl := NaN, velocity_y_fl := Finite 0, velocity_z_fl := Finite 0\<rparr>"
    by (simp add: nan_velocity_ship_def nan_velocity_ship_eq)
  have f: "x_fl nan_velocity_ship = Finite huge" "y_fl nan_velocity_ship = Finite 0"
    "z_fl nan_velocity_ship = Finite 0" "velocity_x_fl nan_velocity_ship = NaN"
    "velocity_y_fl nan_velocity_ship = Finite 0" "velocity_z_fl nan_velocity_ship = Finite 0"
    "fuel_level_fl nan_velocity_ship = Finite 1000"
    "fuel_consumption_rate_fl nan_velocity_ship = Finite 1"
    "navigation_locked_fl nan_velocity_ship = False"
    by (simp_all add: s far_ship_eq init_fl_def)
  have upd: "nan_velocity_ship\<lparr>x_fl := NaN, y_fl := Finite 0, z_fl := Finite 0, fuel_level_fl := NaN\<rparr>
        = nan_velocity_ship\<lparr>x_fl := NaN, fuel_level_fl := NaN\<rparr>"
    by (simp add: s far_ship_eq init_fl_def)
  show ?thesis
    by (simp add: navigate_time_step_fl_def move_fl_def f fle_def fgt_def fsub_def of_exact_small upd
        Let_def)
qed

text \<open>
  C4: the fuel bound is to hold after every call, and the code breaks it. On the ship of
  the run above, whose \<^verbatim>\<open>velocity_x\<close> is NaN, \<^verbatim>\<open>navigate_time_step(1)\<close> returns True: in
  \<^verbatim>\<open>move\<close> the distance is NaN, so both \<^verbatim>\<open>distance == 0\<close> and
  \<^verbatim>\<open>fuel_needed > self.fuel_level\<close> are False, and NaN is subtracted from the fuel level.
  After the call \<^verbatim>\<open>fuel_level\<close> is NaN: neither \<^verbatim>\<open>0 <= fuel_level\<close> nor
  \<^verbatim>\<open>fuel_level <= max_fuel\<close> holds.
\<close>

theorem fuel_nan_after_overflow:
  "fst (navigate_time_step_fl nan_velocity_ship (Finite 1)) = True
   \<and> fuel_level_fl nan_fuel_ship = NaN
   \<and> fle (Finite 0) (fuel_level_fl nan_fuel_ship) = False
   \<and> fle (fuel_level_fl nan_fuel_ship) (max_fuel_fl nan_fuel_ship) = False"
  by (simp add: nan_fuel_ship_def nan_fuel_ship_eq add_to_history_fl_def fle_def Let_def)

subsection \<open>The repository's unit tests, replayed on the model\<close>

text \<open>
  Cases of \<^verbatim>\<open>test_space_ship.py\<close>, as a check that the definitions above compute what the
  tests expect of the class.
\<close>

lemma sqrt_14_bounds: "3 < sqrt 14" "sqrt 14 < 4"
proof -
  show "3 < sqrt 14" by (rule real_less_rsqrt) simp
  show "sqrt 14 < 4" by (rule real_less_lsqrt) simp_all
qed

lemma test_initial_position: "get_position (init 0 0 0) = (0, 0, 0)"
  by (simp add: get_position_def init_def)

lemma test_set_position_locked:
  "fst (set_position (snd (lock_navigation (init 0 0 0) True)) 1 2 3) = False"
  by (simp add: set_position_def lock_navigation_def init_def)

lemma test_velocity_out_of_speed_limit: "fst (set_velocity (init 0 0 0) 999 999 999) = False"
  by (simp add: set_velocity_def init_def)

lemma test_move_changed_unlocked:
  "fst (move (init 0 0 0) 1 2 3) = True
   \<and> get_position (snd (move (init 0 0 0) 1 2 3)) = (1, 2, 3)
   \<and> fuel_level (snd (move (init 0 0 0) 1 2 3)) = 1000 - sqrt 14"
proof -
  have "\<not> sqrt 14 > 1000" using sqrt_14_bounds(2) by linarith
  moreover have "sqrt 14 \<noteq> 0" using sqrt_14_bounds(1) by linarith
  ultimately show ?thesis
    by (simp add: move_def add_to_history_def get_position_def init_def Let_def)
qed

lemma test_move_no_fuel: "move (init 0 0 0) 1000 2000 3000 = (False, init 0 0 0)"
proof -
  have "1000 < sqrt 14000000" by (rule real_less_rsqrt) simp
  then show ?thesis by (simp add: move_def init_def Let_def)
qed

lemma test_accelerate_changed_unlocked:
  "fst (accelerate (init 0 0 0) 1 2 3 10) = True
   \<and> get_velocity (snd (accelerate (init 0 0 0) 1 2 3 10)) = (10, 20, 30)"
proof -
  have "\<not> sqrt 14 * 10 * 2 > 1000" using sqrt_14_bounds(2) by linarith
  then show ?thesis
    by (simp add: accelerate_def get_velocity_def init_def Let_def)
qed

lemma test_accelerate_no_fuel: "accelerate (init 0 0 0) 10 10 10 9999 = (False, init 0 0 0)"
  by (simp add: accelerate_def init_def Let_def)

lemma test_velocity_out_of_speed_limit_fl:
  "fst (set_velocity_fl (init_fl (Finite 0) (Finite 0) (Finite 0))
          (Finite 999) (Finite 999) (Finite 999)) = False"
  by (simp add: set_velocity_fl_def init_fl_def fgt_def)

lemma negative_speed_rejected_fl:
  "navigate_to_target_fl (init_fl (Finite 0) (Finite 0) (Finite 0))
       (Finite 1) (Finite 0) (Finite 0) (Some (Finite (- 500)))
     = (False, init_fl (Finite 0) (Finite 0) (Finite 0))"
  by (simp add: navigate_to_target_fl_def calculate_distance_to_fl_def set_velocity_fl_def
      init_fl_def fsub_def fmin_def fgt_def of_exact_small Let_def)

end
